theory Spec2Isabelle
  imports Main
begin

section \<open>The AST of the loop-desugaring pass (compiler/AST/ForLoop.cpp)\<close>

text \<open>
  Symbols are the objects that \<open>SymExpr\<close> and \<open>DefExpr\<close> nodes point to. A literal
  is a \<open>VarSymbol\<close> too (named by its text), as in the compiler.
\<close>

datatype symbol = VarSymbol string | LabelSymbol string

datatype Flag = FLAG_EXPR_TEMP | FLAG_INDEX_OF_INTEREST | FLAG_COFORALL_INDEX_VAR

datatype PrimitiveTag = PRIM_MOVE | PRIM_ZIP | PRIM_TUPLE_EXPAND | PRIM_OTHER string

datatype BlockTag = BLOCK_NORMAL | BLOCK_TYPE | BLOCK_SCOPELESS

type_synonym LLVMMetadataList = "string list"

type_synonym astlocT = "string \<times> nat"

text \<open>
  The members of class \<open>ForLoop\<close> (with those it inherits from \<open>LoopStmt\<close>,
  \<open>BlockStmt\<close> and \<open>BaseAST\<close> that ForLoop.cpp reads or writes). A null pointer is
  \<open>None\<close>. \<open>ast_id\<close> is the member \<open>id\<close>.
\<close>

datatype 'e ForLoop = ForLoop
  (ast_id: int)
  (astloc: astlocT)
  (blockTag: BlockTag)
  (mBreakLabel: "symbol option")
  (mContinueLabel: "symbol option")
  (mOrderIndependent: bool)
  (mLLVMMetadataList: LLVMMetadataList)
  (userLabel: "string option")
  (mIndex: "'e option")
  (mIterator: "'e option")
  (mZippered: bool)
  (mLoweredForall: bool)
  (mIsForExpr: bool)
  (fShadowVars: "'e list")
  (blockInfo: "'e option")
  (useList: "'e option")
  (byrefVars: "'e option")
  (body: "'e list")

text \<open>
  Expressions and statements. A \<open>CallExpr\<close> has a callee expression (\<open>baseExpr\<close>) or a
  primitive, and its actuals in order. \<open>OtherExpr\<close> stands for the node classes that
  ForLoop.cpp never looks into.
\<close>

datatype Expr =
    SymExpr symbol
  | UnresolvedSymExpr string
  | CallExpr (baseExpr: "Expr option") (primitive: "PrimitiveTag option") (argList: "Expr list")
  | DefExpr symbol
  | BlockStmt BlockTag "Expr list"
  | DeferStmt Expr
  | ForLoopStmt "Expr ForLoop"
  | OtherExpr string "Expr list"

text \<open>
  \<open>INT_FATAL(node, msg)\<close> is the compiler's internal error, \<open>USR_FATAL\<close> the error
  reported to the user about their program; both end the call. The optional number is the
  id of the node the diagnostic names.
\<close>

datatype error = INT_FATAL "int option" string | USR_FATAL string | NullDereference

definition bindE :: "error + 'a \<Rightarrow> ('a \<Rightarrow> error + 'b) \<Rightarrow> error + 'b" where
  "bindE m f = (case m of Inl e \<Rightarrow> Inl e | Inr x \<Rightarrow> f x)"

fun mapE :: "('a \<Rightarrow> error + 'b) \<Rightarrow> 'a list \<Rightarrow> error + 'b list" where
  "mapE f [] = Inr []"
| "mapE f (x # xs) = bindE (f x) (\<lambda>y. bindE (mapE f xs) (\<lambda>ys. Inr (y # ys)))"

subsection \<open>Helpers of the AST library that ForLoop.cpp calls\<close>

text \<open>
  Modelled from the spec: the \<open>CallExpr\<close> constructors, \<open>toCallExpr\<close>,
  \<open>CallExpr::isNamed\<close>, \<open>isNamedAstr\<close> and \<open>isPrimitive\<close> are defined outside
  ForLoop.cpp. The spec's optimizer recognizes shapes "by syntactic structure only": a call is
  named \<open>n\<close> when its callee is a reference (resolved or unresolved) with that name, and
  is a primitive call when its primitive slot holds that tag.
\<close>

definition new_CallExpr :: "string \<Rightarrow> Expr list \<Rightarrow> Expr" where
  "new_CallExpr name args = CallExpr (Some (UnresolvedSymExpr name)) None args"

definition new_PrimCall :: "PrimitiveTag \<Rightarrow> Expr list \<Rightarrow> Expr" where
  "new_PrimCall tag args = CallExpr None (Some tag) args"

fun toCallExpr :: "Expr \<Rightarrow> Expr option" where
  "toCallExpr (CallExpr b p args) = Some (CallExpr b p args)"
| "toCallExpr _ = None"

fun symbol_name :: "symbol \<Rightarrow> string" where
  "symbol_name (VarSymbol n) = n"
| "symbol_name (LabelSymbol n) = n"

fun isNamed :: "Expr \<Rightarrow> string \<Rightarrow> bool" where
  "isNamed (CallExpr (Some (SymExpr s)) p args) n = (symbol_name s = n)"
| "isNamed (CallExpr (Some (UnresolvedSymExpr u)) p args) n = (u = n)"
| "isNamed _ n = False"

fun isPrimitive :: "Expr \<Rightarrow> PrimitiveTag \<Rightarrow> bool" where
  "isPrimitive (CallExpr b (Some t) args) tag = (t = tag)"
| "isPrimitive _ tag = False"

text \<open>
  Modelled from the spec: \<open>AList::get\<close> (1-based) and \<open>AList::only\<close> are defined
  outside ForLoop.cpp. Asking for an actual that is not there is a structural invariant
  violation, which the spec (section 7) makes a fatal internal error.
\<close>

fun alist_get :: "Expr list \<Rightarrow> nat \<Rightarrow> error + Expr" where
  "alist_get xs 0 = Inl (INT_FATAL None ''Indexing list must use positive integer'')"
| "alist_get [] (Suc i) = Inl (INT_FATAL None ''Indexing list out of bounds'')"
| "alist_get (x # xs) (Suc 0) = Inr x"
| "alist_get (x # xs) (Suc (Suc i)) = alist_get xs (Suc i)"

fun alist_only :: "Expr list \<Rightarrow> error + Expr" where
  "alist_only [] = Inl (INT_FATAL None ''only() called on empty list'')"
| "alist_only [x] = Inr x"
| "alist_only (x # y # ys) = Inl (INT_FATAL None ''only() called on list with more than one element'')"

section \<open>Direct iteration over anonymous ranges\<close>

text \<open>
  \<open>tryToReplaceWithDirectRangeIterator\<close>. The C++ replaces the node in its parent; the
  model returns the expression that stands in the node's place afterwards. \<open>copy()\<close> of
  an expression is the same expression value. The first argument is the global switch
  \<open>fNoOptimizeRangeIteration\<close>.

  \<open>grabRange\<close> is the first if/else-if/else of the function: the range call, the stride
  and the count (null when absent).
\<close>

definition grabRange :: "Expr \<Rightarrow> error + (Expr option \<times> Expr option \<times> Expr option)" where
  "grabRange call =
     (if isNamed call ''chpl_by'' then
        bindE (alist_get (argList call) 1) (\<lambda>a1.
        bindE (alist_get (argList call) 2) (\<lambda>a2.
          Inr (toCallExpr a1, Some a2, None)))
      else if isNamed call ''#'' then
        bindE (alist_get (argList call) 1) (\<lambda>a1.
        bindE (alist_get (argList call) 2) (\<lambda>a2.
          Inr (toCallExpr a1, None, Some a2)))
      else Inr (Some call, None, None))"

definition replaceRange :: "Expr \<Rightarrow> Expr \<Rightarrow> Expr option \<Rightarrow> Expr option \<Rightarrow> error + Expr" where
  "replaceRange iteratorExpr rangeCall stride count =
     (let fullyBounded = isNamed rangeCall ''chpl_build_bounded_range'';
          lowBounded = isNamed rangeCall ''chpl_build_low_bounded_range''
      in if \<not> fullyBounded \<and> \<not> lowBounded then Inr iteratorExpr
         else if stride = None \<and> count = None \<and> fullyBounded then
           bindE (alist_get (argList rangeCall) 1) (\<lambda>low.
           bindE (alist_get (argList rangeCall) 2) (\<lambda>high.
             Inr (new_CallExpr ''chpl_direct_range_iter'' [low, high])))
         else if stride \<noteq> None \<and> count = None \<and> fullyBounded then
           bindE (alist_get (argList rangeCall) 1) (\<lambda>low.
           bindE (alist_get (argList rangeCall) 2) (\<lambda>high.
             Inr (new_CallExpr ''chpl_direct_strided_range_iter'' [low, high, the stride])))
         else if stride = None \<and> count \<noteq> None \<and> lowBounded then
           bindE (alist_get (argList rangeCall) 1) (\<lambda>low.
             Inr (new_CallExpr ''chpl_direct_counted_range_iter'' [low, the count]))
         else Inr iteratorExpr)"

definition tryToReplaceWithDirectRangeIterator :: "bool \<Rightarrow> Expr \<Rightarrow> error + Expr" where
  "tryToReplaceWithDirectRangeIterator fNoOptimizeRangeIteration iteratorExpr =
     (if fNoOptimizeRangeIteration then Inr iteratorExpr
      else case toCallExpr iteratorExpr of
        None \<Rightarrow> Inr iteratorExpr
      | Some call \<Rightarrow>
          bindE (grabRange call) (\<lambda>(rangeCall, stride, count).
            case rangeCall of
              None \<Rightarrow> Inr iteratorExpr
            | Some r \<Rightarrow> replaceRange iteratorExpr r stride count))"

section \<open>The loop node\<close>

text \<open>
  Assignments to single members of a node (\<open>retval->mZippered = mZippered\<close>): the node
  with that member replaced and the others kept.
\<close>

definition set_astloc :: "astlocT \<Rightarrow> 'e ForLoop \<Rightarrow> 'e ForLoop" where
  "set_astloc v l =
     ForLoop (ast_id l) v (blockTag l) (mBreakLabel l) (mContinueLabel l) (mOrderIndependent
       l) (mLLVMMetadataList l) (userLabel l) (mIndex l) (mIterator l) (mZippered l)
       (mLoweredForall l) (mIsForExpr l) (fShadowVars l) (blockInfo l) (useList l)
       (byrefVars l) (body l)"

definition set_blockTag :: "BlockTag \<Rightarrow> 'e ForLoop \<Rightarrow> 'e ForLoop" where
  "set_blockTag v l =
     ForLoop (ast_id l) (astloc l) v (mBreakLabel l) (mContinueLabel l) (mOrderIndependent
       l) (mLLVMMetadataList l) (userLabel l) (mIndex l) (mIterator l) (mZippered l)
       (mLoweredForall l) (mIsForExpr l) (fShadowVars l) (blockInfo l) (useList l)
       (byrefVars l) (body l)"

definition set_mBreakLabel :: "symbol option \<Rightarrow> 'e ForLoop \<Rightarrow> 'e ForLoop" where
  "set_mBreakLabel v l =
     ForLoop (ast_id l) (astloc l) (blockTag l) v (mContinueLabel l) (mOrderIndependent l)
       (mLLVMMetadataList l) (userLabel l) (mIndex l) (mIterator l) (mZippered l)
       (mLoweredForall l) (mIsForExpr l) (fShadowVars l) (blockInfo l) (useList l)
       (byrefVars l) (body l)"

definition set_mContinueLabel :: "symbol option \<Rightarrow> 'e ForLoop \<Rightarrow> 'e ForLoop" where
  "set_mContinueLabel v l =
     ForLoop (ast_id l) (astloc l) (blockTag l) (mBreakLabel l) v (mOrderIndependent l)
       (mLLVMMetadataList l) (userLabel l) (mIndex l) (mIterator l) (mZippered l)
       (mLoweredForall l) (mIsForExpr l) (fShadowVars l) (blockInfo l) (useList l)
       (byrefVars l) (body l)"

definition set_mOrderIndependent :: "bool \<Rightarrow> 'e ForLoop \<Rightarrow> 'e ForLoop" where
  "set_mOrderIndependent v l =
     ForLoop (ast_id l) (astloc l) (blockTag l) (mBreakLabel l) (mContinueLabel l) v
       (mLLVMMetadataList l) (userLabel l) (mIndex l) (mIterator l) (mZippered l)
       (mLoweredForall l) (mIsForExpr l) (fShadowVars l) (blockInfo l) (useList l)
       (byrefVars l) (body l)"

definition set_mLLVMMetadataList :: "LLVMMetadataList \<Rightarrow> 'e ForLoop \<Rightarrow> 'e ForLoop" where
  "set_mLLVMMetadataList v l =
     ForLoop (ast_id l) (astloc l) (blockTag l) (mBreakLabel l) (mContinueLabel l)
       (mOrderIndependent l) v (userLabel l) (mIndex l) (mIterator l) (mZippered l)
       (mLoweredForall l) (mIsForExpr l) (fShadowVars l) (blockInfo l) (useList l)
       (byrefVars l) (body l)"

definition set_userLabel :: "string option \<Rightarrow> 'e ForLoop \<Rightarrow> 'e ForLoop" where
  "set_userLabel v l =
     ForLoop (ast_id l) (astloc l) (blockTag l) (mBreakLabel l) (mContinueLabel l)
       (mOrderIndependent l) (mLLVMMetadataList l) v (mIndex l) (mIterator l) (mZippered l)
       (mLoweredForall l) (mIsForExpr l) (fShadowVars l) (blockInfo l) (useList l)
       (byrefVars l) (body l)"

definition set_mIndex :: "'e option \<Rightarrow> 'e ForLoop \<Rightarrow> 'e ForLoop" where
  "set_mIndex v l =
     ForLoop (ast_id l) (astloc l) (blockTag l) (mBreakLabel l) (mContinueLabel l)
       (mOrderIndependent l) (mLLVMMetadataList l) (userLabel l) v (mIterator l) (mZippered
       l) (mLoweredForall l) (mIsForExpr l) (fShadowVars l) (blockInfo l) (useList l)
       (byrefVars l) (body l)"

definition set_mIterator :: "'e option \<Rightarrow> 'e ForLoop \<Rightarrow> 'e ForLoop" where
  "set_mIterator v l =
     ForLoop (ast_id l) (astloc l) (blockTag l) (mBreakLabel l) (mContinueLabel l)
       (mOrderIndependent l) (mLLVMMetadataList l) (userLabel l) (mIndex l) v (mZippered l)
       (mLoweredForall l) (mIsForExpr l) (fShadowVars l) (blockInfo l) (useList l)
       (byrefVars l) (body l)"

definition set_mZippered :: "bool \<Rightarrow> 'e ForLoop \<Rightarrow> 'e ForLoop" where
  "set_mZippered v l =
     ForLoop (ast_id l) (astloc l) (blockTag l) (mBreakLabel l) (mContinueLabel l)
       (mOrderIndependent l) (mLLVMMetadataList l) (userLabel l) (mIndex l) (mIterator l) v
       (mLoweredForall l) (mIsForExpr l) (fShadowVars l) (blockInfo l) (useList l)
       (byrefVars l) (body l)"

definition set_mLoweredForall :: "bool \<Rightarrow> 'e ForLoop \<Rightarrow> 'e ForLoop" where
  "set_mLoweredForall v l =
     ForLoop (ast_id l) (astloc l) (blockTag l) (mBreakLabel l) (mContinueLabel l)
       (mOrderIndependent l) (mLLVMMetadataList l) (userLabel l) (mIndex l) (mIterator l)
       (mZippered l) v (mIsForExpr l) (fShadowVars l) (blockInfo l) (useList l) (byrefVars
       l) (body l)"

definition set_mIsForExpr :: "bool \<Rightarrow> 'e ForLoop \<Rightarrow> 'e ForLoop" where
  "set_mIsForExpr v l =
     ForLoop (ast_id l) (astloc l) (blockTag l) (mBreakLabel l) (mContinueLabel l)
       (mOrderIndependent l) (mLLVMMetadataList l) (userLabel l) (mIndex l) (mIterator l)
       (mZippered l) (mLoweredForall l) v (fShadowVars l) (blockInfo l) (useList l)
       (byrefVars l) (body l)"

definition set_fShadowVars :: "'e list \<Rightarrow> 'e ForLoop \<Rightarrow> 'e ForLoop" where
  "set_fShadowVars v l =
     ForLoop (ast_id l) (astloc l) (blockTag l) (mBreakLabel l) (mContinueLabel l)
       (mOrderIndependent l) (mLLVMMetadataList l) (userLabel l) (mIndex l) (mIterator l)
       (mZippered l) (mLoweredForall l) (mIsForExpr l) v (blockInfo l) (useList l)
       (byrefVars l) (body l)"

definition set_body :: "'e list \<Rightarrow> 'e ForLoop \<Rightarrow> 'e ForLoop" where
  "set_body v l =
     ForLoop (ast_id l) (astloc l) (blockTag l) (mBreakLabel l) (mContinueLabel l)
       (mOrderIndependent l) (mLLVMMetadataList l) (userLabel l) (mIndex l) (mIterator l)
       (mZippered l) (mLoweredForall l) (mIsForExpr l) (fShadowVars l) (blockInfo l)
       (useList l) (byrefVars l) v"

text \<open>
  Modelled from the spec: the constructors of \<open>BaseAST\<close>, \<open>BlockStmt\<close> and
  \<open>LoopStmt\<close> are defined outside ForLoop.cpp. A new node gets an id and the current source
  location from \<open>BaseAST\<close> (arguments \<open>nid\<close> and \<open>loc\<close> here), an empty legacy condition
  slot, no use-list and no by-ref-var list, no labels, and a body that holds the statement
  handed to the constructor, if any (spec section 3: the node carries the body and never
  an embedded condition).

  \<open>new_ForLoop0\<close> is \<open>ForLoop::ForLoop()\<close>, \<open>new_ForLoop\<close> the constructor with six
  arguments.
\<close>

definition new_LoopStmt :: "int \<Rightarrow> astlocT \<Rightarrow> 'e option \<Rightarrow> 'e ForLoop" where
  "new_LoopStmt nid loc initBody =
     ForLoop nid loc BLOCK_NORMAL None None False [] None None None False False False
       [] None None None (case initBody of None \<Rightarrow> [] | Some b \<Rightarrow> [b])"

definition new_ForLoop0 :: "int \<Rightarrow> astlocT \<Rightarrow> Expr ForLoop" where
  "new_ForLoop0 nid loc =
     (let l = new_LoopStmt nid loc None;
          l = set_mIndex None l;
          l = set_mIterator None l;
          l = set_mZippered False l;
          l = set_mLoweredForall False l;
          l = set_mIsForExpr False l
      in l)"

definition new_ForLoop ::
  "int \<Rightarrow> astlocT \<Rightarrow> symbol \<Rightarrow> symbol \<Rightarrow> Expr option \<Rightarrow> bool \<Rightarrow> bool \<Rightarrow> bool \<Rightarrow> Expr ForLoop" where
  "new_ForLoop nid loc index iterator initBody zippered isLoweredForall isForExpr =
     (let l = new_LoopStmt nid loc initBody
      in ForLoop (ast_id l) (astloc l) (blockTag l) (mBreakLabel l) (mContinueLabel l)
           (mOrderIndependent l) (mLLVMMetadataList l) (userLabel l)
           (Some (SymExpr index)) (Some (SymExpr iterator))
           zippered isLoweredForall isForExpr
           (fShadowVars l) (blockInfo l) (useList l) (byrefVars l) (body l))"

definition isLoweredForallLoop :: "'e ForLoop \<Rightarrow> bool" where
  "isLoweredForallLoop l = mLoweredForall l"

definition isForExpr :: "'e ForLoop \<Rightarrow> bool" where
  "isForExpr l = mIsForExpr l"

definition indexGet :: "'e ForLoop \<Rightarrow> 'e option" where
  "indexGet l = mIndex l"

definition iteratorGet :: "'e ForLoop \<Rightarrow> 'e option" where
  "iteratorGet l = mIterator l"

definition zipperedGet :: "'e ForLoop \<Rightarrow> bool" where
  "zipperedGet l = mZippered l"

definition insertAtTail :: "'e \<Rightarrow> 'e ForLoop \<Rightarrow> 'e ForLoop" where
  "insertAtTail e l = set_body (body l @ [e]) l"

subsection \<open>Cloning\<close>

text \<open>
  \<open>Expr::copy(map, true)\<close> is defined outside ForLoop.cpp: it is the parameter \<open>cp\<close>, which
  returns the copy and the rename map as the copy left it. \<open>copyList\<close> is the loop
  \<open>for_alist(expr, body) retval->insertAtTail(expr->copy(map, true))\<close>.
  \<open>copyInner\<close> calls \<open>copy\<close> through \<open>mIndex\<close> and \<open>mIterator\<close> without a null test.
\<close>

type_synonym SymbolMap = "(symbol \<times> symbol) list"

fun copyList ::
  "(SymbolMap \<Rightarrow> Expr \<Rightarrow> Expr \<times> SymbolMap) \<Rightarrow> SymbolMap \<Rightarrow> Expr list \<Rightarrow> Expr list \<times> SymbolMap" where
  "copyList cp m [] = ([], m)"
| "copyList cp m (e # es) =
     (case cp m e of (e', m1) \<Rightarrow>
        (case copyList cp m1 es of (es', m2) \<Rightarrow> (e' # es', m2)))"

definition copyInner ::
  "(SymbolMap \<Rightarrow> Expr \<Rightarrow> Expr \<times> SymbolMap) \<Rightarrow> int \<Rightarrow> astlocT \<Rightarrow> Expr ForLoop \<Rightarrow> SymbolMap
     \<Rightarrow> error + (Expr ForLoop \<times> SymbolMap)" where
  "copyInner cp nid loc this m =
     (let retval = new_ForLoop0 nid loc;
          retval = set_astloc (astloc this) retval;
          retval = set_blockTag (blockTag this) retval;
          retval = set_mBreakLabel (mBreakLabel this) retval;
          retval = set_mContinueLabel (mContinueLabel this) retval;
          retval = set_mOrderIndependent (mOrderIndependent this) retval;
          retval = set_mLLVMMetadataList (mLLVMMetadataList this) retval
      in case mIndex this of
           None \<Rightarrow> Inl NullDereference
         | Some idx \<Rightarrow>
            (case cp m idx of (idx', m1) \<Rightarrow>
              (case mIterator this of
                 None \<Rightarrow> Inl NullDereference
               | Some it \<Rightarrow>
                  (case cp m1 it of (it', m2) \<Rightarrow>
                    (let retval = set_mIndex (Some idx') retval;
                         retval = set_mIterator (Some it') retval;
                         retval = set_mZippered (mZippered this) retval;
                         retval = set_mIsForExpr (mIsForExpr this) retval;
                         retval = set_userLabel (userLabel this) retval
                     in case copyList cp m2 (body this) of (stmts, m3) \<Rightarrow>
                          Inr (set_body (body retval @ stmts) retval, m3))))))"

subsection \<open>Legacy accessors, validation and code emission\<close>

text \<open>
  What a call writes to standard output: the format string and the values for its
  conversions, as handed to \<open>printf\<close>.
\<close>

datatype printed = Printf string "int list"

definition blockInfoGet :: "Expr ForLoop \<Rightarrow> error + (printed list \<times> Expr option)" where
  "blockInfoGet this =
     Inr ([Printf (''Migration: ForLoop   %12d Unexpected call to blockInfoGet()'' @ [CHR 0x0A])
             [ast_id this]], None)"

definition blockInfoSet ::
  "Expr ForLoop \<Rightarrow> Expr option \<Rightarrow> error + (printed list \<times> Expr option \<times> Expr ForLoop)" where
  "blockInfoSet this expr =
     Inr ([Printf (''Migration: ForLoop   %12d Unexpected call to blockInfoSet()'' @ [CHR 0x0A])
             [ast_id this]], None, this)"

text \<open>
  \<open>BlockStmt::verify\<close> is defined outside ForLoop.cpp: it is the parameter
  \<open>BlockStmt_verify\<close>. \<open>BlockStmt::blockInfoGet()\<close> reads the legacy condition slot.
\<close>

definition verify :: "(Expr ForLoop \<Rightarrow> error + unit) \<Rightarrow> Expr ForLoop \<Rightarrow> error + unit" where
  "verify BlockStmt_verify this =
     bindE (BlockStmt_verify this) (\<lambda>_.
       if blockInfo this \<noteq> None then
         Inl (INT_FATAL (Some (ast_id this)) ''ForLoop::verify. blockInfo is not NULL'')
       else if mIndex this = None then
         Inl (INT_FATAL (Some (ast_id this)) ''ForLoop::verify. index     is NULL'')
       else if mIterator this = None then
         Inl (INT_FATAL (Some (ast_id this)) ''ForLoop::verify. iterator  is NULL'')
       else if useList this \<noteq> None then
         Inl (INT_FATAL (Some (ast_id this)) ''ForLoop::verify. useList   is not NULL'')
       else if byrefVars this \<noteq> None then
         Inl (INT_FATAL (Some (ast_id this)) ''ForLoop::verify. byrefVars is not NULL'')
       else Inr ())"

definition codegen :: "Expr ForLoop \<Rightarrow> error + unit" where
  "codegen this =
     Inl (INT_FATAL (Some (ast_id this)) ''ForLoop::codegen This should be unreachable'')"

section \<open>Factory methods for the parser\<close>

text \<open>
  The collaborators that ForLoop.cpp calls and does not define: the global switch
  \<open>fNoOptimizeRangeIteration\<close>; \<open>checkIndices\<close>, which may end the compilation with an
  error (\<open>Some\<close>); \<open>destructureIndices(loop, indices, init, coforall)\<close>, which yields the
  bindings it leaves at the head of the loop's body or fails; and the id and source
  location that a node made now receives.
\<close>

record Collaborators =
  fNoOptimizeRangeIteration :: bool
  checkIndices :: "Expr \<Rightarrow> error option"
  destructureIndices :: "Expr \<Rightarrow> Expr \<Rightarrow> bool \<Rightarrow> error + Expr list"
  newId :: int
  currentAstloc :: astlocT

text \<open>
  Modelled from the spec: \<open>newTemp\<close>, \<open>LoopStmt::setAdditionalLLVMMetadata\<close> and
  \<open>LoopStmt::orderIndependentSet\<close> are defined outside ForLoop.cpp. \<open>newTemp\<close> is the
  temporary-symbol allocator of spec section 6 (a scratch variable of the given name); the
  two setters store the attribute list and the \<open>isOrderIndependent\<close> flag of section 3.
\<close>

definition newTemp :: "string \<Rightarrow> symbol" where
  "newTemp name = VarSymbol name"

definition setAdditionalLLVMMetadata :: "LLVMMetadataList \<Rightarrow> 'e ForLoop \<Rightarrow> 'e ForLoop" where
  "setAdditionalLLVMMetadata attrs l = set_mLLVMMetadataList attrs l"

definition orderIndependentSet :: "bool \<Rightarrow> 'e ForLoop \<Rightarrow> 'e ForLoop" where
  "orderIndependentSet b l = set_mOrderIndependent b l"

text \<open>
  The branch for a \<open>PRIM_ZIP\<close> source (lines 225 to 264): the call that \<open>zipExpr\<close> has
  become when the branch ends. Its primitive is removed and its callee set; its actuals
  are replaced one by one, from the left.
\<close>

definition expandZip :: "bool \<Rightarrow> Expr \<Rightarrow> error + Expr" where
  "expandZip noopt zipExpr =
     (if length (argList zipExpr) = 1 then
        bindE (alist_only (argList zipExpr)) (\<lambda>zipArg.
          if (case toCallExpr zipArg of
                None \<Rightarrow> False
              | Some zipArgCall \<Rightarrow> isPrimitive zipArgCall PRIM_TUPLE_EXPAND)
          then
            bindE (alist_only (argList zipArg)) (\<lambda>tupleArg.
              Inr (CallExpr (Some (UnresolvedSymExpr ''_getIteratorZip'')) None [tupleArg]))
          else
            bindE (tryToReplaceWithDirectRangeIterator noopt zipArg) (\<lambda>zipArg'.
              Inr (CallExpr (Some (UnresolvedSymExpr ''_getIterator'')) None [zipArg'])))
      else
        bindE (mapE (\<lambda>arg.
                 bindE (tryToReplaceWithDirectRangeIterator noopt arg) (\<lambda>argCopy.
                   Inr (new_CallExpr ''_getIterator'' [argCopy])))
               (argList zipExpr)) (\<lambda>args.
          Inr (CallExpr (Some (UnresolvedSymExpr ''_build_tuple'')) None args)))"

text \<open>
  The old-style zippered source (lines 271 to 278): the source as the optimizer leaves
  it. \<open>astrBuildTuple\<close> is the name \<open>_build_tuple\<close>.
\<close>

definition oldStyleZipSource :: "bool \<Rightarrow> Expr \<Rightarrow> error + Expr" where
  "oldStyleZipSource noopt iteratorExpr =
     (case toCallExpr iteratorExpr of
        None \<Rightarrow> Inr iteratorExpr
      | Some call \<Rightarrow>
          if isNamed call ''_build_tuple'' then
            bindE (mapE (tryToReplaceWithDirectRangeIterator noopt) (argList call)) (\<lambda>actuals.
              Inr (CallExpr (baseExpr call) (primitive call) actuals))
          else Inr iteratorExpr)"

text \<open>The statement \<open>iterInit\<close> (lines 203 to 280).\<close>

definition buildIterInit :: "bool \<Rightarrow> symbol \<Rightarrow> bool \<Rightarrow> Expr \<Rightarrow> error + Expr" where
  "buildIterInit noopt iterator zippered iteratorExpr =
     (if zippered = False then
        bindE (tryToReplaceWithDirectRangeIterator noopt iteratorExpr) (\<lambda>e.
          Inr (new_PrimCall PRIM_MOVE [SymExpr iterator, new_CallExpr ''_getIterator'' [e]]))
      else if (case toCallExpr iteratorExpr of
                 None \<Rightarrow> False
               | Some zipExpr \<Rightarrow> isPrimitive zipExpr PRIM_ZIP)
      then
        bindE (expandZip noopt iteratorExpr) (\<lambda>zipExpr.
          Inr (new_PrimCall PRIM_MOVE [SymExpr iterator, zipExpr]))
      else
        bindE (oldStyleZipSource noopt iteratorExpr) (\<lambda>e.
          Inr (new_PrimCall PRIM_MOVE [SymExpr iterator, new_CallExpr ''_getIteratorZip'' [e]])))"

text \<open>
  The loop \<open>while (Expr* src = intents->argList.head) ... insertAtTail(src->remove())\<close>:
  the actuals still in the intents call and the shadow variables of the loop.
\<close>

fun transferIntents :: "Expr list \<Rightarrow> Expr list \<Rightarrow> Expr list \<times> Expr list" where
  "transferIntents [] shadowVars = ([], shadowVars)"
| "transferIntents (src # rest) shadowVars = transferIntents rest (shadowVars @ [src])"

text \<open>
  \<open>if (intents) { ... }\<close> (lines 302 to 305): the intents call of the caller and the loop
  afterwards. The parameter is a \<open>CallExpr*\<close>, so the last equation is for null.
\<close>

fun transferShadowVars :: "Expr option \<Rightarrow> Expr ForLoop \<Rightarrow> Expr option \<times> Expr ForLoop" where
  "transferShadowVars (Some (CallExpr b p args)) loop =
     (case transferIntents args (fShadowVars loop) of
        (left, shadowVars) \<Rightarrow> (Some (CallExpr b p left), set_fShadowVars shadowVars loop))"
| "transferShadowVars intents loop = (intents, loop)"

text \<open>
  What \<open>doBuildForLoop\<close> leaves behind: the block it returns, the intents call of the
  caller as it is afterwards, and the flags it added to symbols, in order.
\<close>

record BuildResult =
  builtBlock :: Expr
  intentsLeft :: "Expr option"
  flagsAdded :: "(symbol \<times> Flag) list"

definition doBuildForLoop ::
  "Collaborators \<Rightarrow> Expr option \<Rightarrow> Expr \<Rightarrow> Expr option \<Rightarrow> Expr option \<Rightarrow> LLVMMetadataList
     \<Rightarrow> bool \<Rightarrow> bool \<Rightarrow> bool \<Rightarrow> bool \<Rightarrow> bool \<Rightarrow> error + BuildResult" where
  "doBuildForLoop env indices iteratorExpr intents loopBody attrs
       coforall zippered isLoweredForall isForExpr' isForeach =
     (let index = newTemp ''_indexOfInterest'';
          iterator = newTemp ''_iterator'';
          loop = new_ForLoop (newId env) (currentAstloc env) index iterator loopBody
                   zippered isLoweredForall isForExpr';
          continueLabel = LabelSymbol ''_continueLabel'';
          breakLabel = LabelSymbol ''_breakLabel'';
          loop = setAdditionalLLVMMetadata attrs loop;
          loop = (if isForeach then orderIndependentSet True loop else loop)
      in bindE (buildIterInit (fNoOptimizeRangeIteration env) iterator zippered iteratorExpr)
           (\<lambda>iterInit.
         let iterMove = new_PrimCall PRIM_MOVE
                          [SymExpr index, new_CallExpr ''iteratorIndex'' [SymExpr iterator]];
             indices = (case indices of
                          None \<Rightarrow> DefExpr (VarSymbol ''chpl__elidedIdx'')
                        | Some i \<Rightarrow> i)
         in bindE (case checkIndices env indices of Some e \<Rightarrow> Inl e | None \<Rightarrow> Inr ())
              (\<lambda>_.
            bindE (destructureIndices env indices (SymExpr index) coforall)
              (\<lambda>bindings.
            let loop = set_body (bindings @ body loop) loop;
                loop = set_mContinueLabel (Some continueLabel) loop;
                loop = set_mBreakLabel (Some breakLabel) loop;
                (intents, loop) = transferShadowVars intents loop;
                loop = insertAtTail (DefExpr continueLabel) loop
            in Inr \<lparr> builtBlock = BlockStmt BLOCK_NORMAL
                       [DefExpr index,
                        DefExpr iterator,
                        iterInit,
                        DeferStmt (new_CallExpr ''_freeIterator'' [SymExpr iterator]),
                        BlockStmt BLOCK_TYPE [iterMove],
                        ForLoopStmt loop,
                        DefExpr breakLabel],
                     intentsLeft = intents,
                     flagsAdded = [(iterator, FLAG_EXPR_TEMP), (index, FLAG_INDEX_OF_INTEREST)]
                        @ (if coforall then [(index, FLAG_COFORALL_INDEX_VAR)] else []) \<rparr>))))"

definition buildForLoop ::
  "Collaborators \<Rightarrow> Expr option \<Rightarrow> Expr \<Rightarrow> Expr option \<Rightarrow> bool \<Rightarrow> bool \<Rightarrow> LLVMMetadataList
     \<Rightarrow> error + BuildResult" where
  "buildForLoop env indices iteratorExpr loopBody zippered isForExpr' attrs =
     doBuildForLoop env indices iteratorExpr None loopBody attrs
       False zippered False isForExpr' False"

definition buildForeachLoop ::
  "Collaborators \<Rightarrow> Expr option \<Rightarrow> Expr \<Rightarrow> Expr option \<Rightarrow> Expr option \<Rightarrow> bool \<Rightarrow> bool
     \<Rightarrow> LLVMMetadataList \<Rightarrow> error + BuildResult" where
  "buildForeachLoop env indices iteratorExpr intents loopBody zippered isForExpr' attrs =
     doBuildForLoop env indices iteratorExpr intents loopBody attrs
       False zippered False isForExpr' True"

definition buildCoforallLoop ::
  "Collaborators \<Rightarrow> Expr option \<Rightarrow> Expr \<Rightarrow> Expr option \<Rightarrow> bool \<Rightarrow> LLVMMetadataList
     \<Rightarrow> error + BuildResult" where
  "buildCoforallLoop env indices iteratorExpr loopBody zippered attrs =
     doBuildForLoop env indices iteratorExpr None loopBody attrs
       True zippered False False False"

definition buildLoweredForallLoop ::
  "Collaborators \<Rightarrow> Expr option \<Rightarrow> Expr \<Rightarrow> Expr option \<Rightarrow> bool \<Rightarrow> bool \<Rightarrow> LLVMMetadataList
     \<Rightarrow> error + BuildResult" where
  "buildLoweredForallLoop env indices iteratorExpr loopBody zippered isForExpr' attrs =
     doBuildForLoop env indices iteratorExpr None loopBody attrs
       False zippered True isForExpr' True"

section \<open>Reading a built block, and example inputs\<close>

text \<open>
  The loop node as \<open>doBuildForLoop\<close> has made it when it reaches line 301: constructed,
  attributes and order independence set, the index bindings at the head of its body and
  both labels stored.
\<close>

definition loopBeforeIntents ::
  "Collaborators \<Rightarrow> Expr option \<Rightarrow> LLVMMetadataList \<Rightarrow> bool \<Rightarrow> bool \<Rightarrow> bool \<Rightarrow> bool \<Rightarrow> Expr list
     \<Rightarrow> Expr ForLoop" where
  "loopBeforeIntents env loopBody attrs zippered isLoweredForall isForExpr' isForeach bindings =
     ForLoop (newId env) (currentAstloc env) BLOCK_NORMAL
       (Some (LabelSymbol ''_breakLabel'')) (Some (LabelSymbol ''_continueLabel''))
       isForeach attrs None
       (Some (SymExpr (VarSymbol ''_indexOfInterest''))) (Some (SymExpr (VarSymbol ''_iterator'')))
       zippered isLoweredForall isForExpr' [] None None None
       (bindings @ (case loopBody of None \<Rightarrow> [] | Some b \<Rightarrow> [b]))"

fun blockItems :: "Expr \<Rightarrow> Expr list" where
  "blockItems (BlockStmt tag stmts) = stmts"
| "blockItems _ = []"

text \<open>
  Inputs for the concrete checks: collaborators that accept every index pattern and bind
  nothing, with the optimizer enabled; the literals 1, 2, 3 and 10; the ranges \<open>1..10\<close>
  and \<open>1..\<close>; a loop node as the factory builds it and one with no index.
\<close>

definition exampleEnv :: Collaborators where
  "exampleEnv = \<lparr> fNoOptimizeRangeIteration = False,
                   checkIndices = (\<lambda>indices. None),
                   destructureIndices = (\<lambda>indices init coforall. Inr []),
                   newId = 7,
                   currentAstloc = (''loop.chpl'', 1) \<rparr>"

definition lit :: "string \<Rightarrow> Expr" where
  "lit s = SymExpr (VarSymbol s)"

definition range_1_10 :: Expr where
  "range_1_10 = new_CallExpr ''chpl_build_bounded_range'' [lit ''1'', lit ''10'']"


definition exampleLoop :: "Expr ForLoop" where
  "exampleLoop =
     new_ForLoop 7 (''loop.chpl'', 1) (VarSymbol ''_indexOfInterest'') (VarSymbol ''_iterator'')
       (Some (BlockStmt BLOCK_NORMAL [])) False True False"

definition loopWithoutIndex :: "Expr ForLoop" where
  "loopWithoutIndex = new_ForLoop0 8 (''loop.chpl'', 2)"

text \<open>
  More inputs for the concrete checks. An inherited check that rejects the node it is
  given, as an instance of the parameter of \<open>verify\<close>. A copy function: the copy of a
  declaration declares a new symbol and enters the pair in the rename map, the copy of a
  reference refers to what the map holds for its symbol, and any other node is returned
  as it is. A loop node, marked as a lowered forall, whose body declares \<open>x\<close> and then
  refers to it.
\<close>

definition rejectingBlockStmtVerify :: "Expr ForLoop \<Rightarrow> error + unit" where
  "rejectingBlockStmtVerify l = Inl (INT_FATAL (Some (ast_id l)) ''BlockStmt::verify'')"

fun renamingCopy :: "SymbolMap \<Rightarrow> Expr \<Rightarrow> Expr \<times> SymbolMap" where
  "renamingCopy m (DefExpr s) =
     (DefExpr (VarSymbol (symbol_name s @ ''_copy'')),
      (s, VarSymbol (symbol_name s @ ''_copy'')) # m)"
| "renamingCopy m (SymExpr s) =
     (SymExpr (case map_of m s of None \<Rightarrow> s | Some t \<Rightarrow> t), m)"
| "renamingCopy m e = (e, m)"

definition loopWithBody :: "Expr ForLoop" where
  "loopWithBody =
     set_body [DefExpr (VarSymbol ''x''), SymExpr (VarSymbol ''x'')] exampleLoop"

section \<open>Properties\<close>

subsection \<open>Shared lemmas\<close>

lemma bindE_Inr_iff: "bindE m f = Inr y \<longleftrightarrow> (\<exists>x. m = Inr x \<and> f x = Inr y)"
  by (cases m) (simp_all add: bindE_def)

lemma bindE_Inr [simp]: "bindE (Inr x) f = f x"
  by (simp add: bindE_def)

lemma bindE_Inl [simp]: "bindE (Inl e) f = Inl e"
  by (simp add: bindE_def)

lemma mapE_Inr_iff: "mapE f xs = Inr ys \<longleftrightarrow> list_all2 (\<lambda>x y. f x = Inr y) xs ys"
proof (induction xs arbitrary: ys)
  case Nil
  then show ?case by auto
next
  case (Cons x xs)
  then show ?case
    by (cases ys) (auto simp: bindE_Inr_iff)
qed

lemma alist_get_1 [simp]: "alist_get (x # xs) 1 = Inr x"
  by simp

lemma alist_get_2 [simp]: "alist_get (x # y # ys) 2 = Inr y"
  by (simp add: numeral_2_eq_2)

lemma isNamed_unique: "isNamed e n \<Longrightarrow> isNamed e m \<Longrightarrow> m = n"
  by (induction e n rule: isNamed.induct) simp_all

lemma toCallExpr_named: "isNamed e n \<Longrightarrow> toCallExpr e = Some e"
  by (induction e n rule: isNamed.induct) simp_all


lemma isNamed_new_CallExpr [simp]: "isNamed (new_CallExpr name args) n \<longleftrightarrow> name = n"
  by (simp add: new_CallExpr_def)

lemma argList_new_CallExpr [simp]: "argList (new_CallExpr name args) = args"
  by (simp add: new_CallExpr_def)

lemma toCallExpr_new_CallExpr [simp]:
  "toCallExpr (new_CallExpr name args) = Some (new_CallExpr name args)"
  by (simp add: new_CallExpr_def)

lemma isPrimitive_new_CallExpr [simp]: "\<not> isPrimitive (new_CallExpr name args) tag"
  by (simp add: new_CallExpr_def)

subsection \<open>The optimizer, case by case\<close>

lemma bounded_range_replaced:
  assumes "isNamed e ''chpl_build_bounded_range''" and "argList e = low # high # rest"
  shows "tryToReplaceWithDirectRangeIterator False e
           = Inr (new_CallExpr ''chpl_direct_range_iter'' [low, high])"
proof -
  have "\<not> isNamed e ''chpl_by''" "\<not> isNamed e ''#''"
    using assms(1) isNamed_unique by fastforce+
  then have "grabRange e = Inr (Some e, None, None)"
    by (simp add: grabRange_def)
  then show ?thesis
    using assms
    by (simp add: tryToReplaceWithDirectRangeIterator_def toCallExpr_named replaceRange_def)
qed








text \<open>
  C7. With the global switch \<open>fNoOptimizeRangeIteration\<close> set, the optimizer returns and
  the expression is the one it was given, whatever that is.
\<close>

theorem no_optimize_is_identity:
  "tryToReplaceWithDirectRangeIterator True e = Inr e"
  by (simp add: tryToReplaceWithDirectRangeIterator_def)

theorem no_optimize_is_identity_witness:
  "tryToReplaceWithDirectRangeIterator True range_1_10 = Inr range_1_10"
  using no_optimize_is_identity [of range_1_10] .

subsection \<open>What the factory returns\<close>

lemma bindE_InrE:
  assumes "bindE m f = Inr y"
  obtains x where "m = Inr x" and "f x = Inr y"
  using assms by (auto simp: bindE_Inr_iff)

lemma transferIntents_eq: "transferIntents args shadowVars = ([], shadowVars @ args)"
  by (induction args arbitrary: shadowVars) simp_all

lemma transferShadowVars_call:
  "transferShadowVars (Some (CallExpr b p args)) loop
     = (Some (CallExpr b p []), set_fShadowVars (fShadowVars loop @ args) loop)"
  by (simp add: transferIntents_eq)

lemma doBuildForLoop_eq:
  "doBuildForLoop env indices iteratorExpr intents loopBody attrs
       coforall zippered isLoweredForall isForExpr' isForeach =
   bindE (buildIterInit (fNoOptimizeRangeIteration env) (VarSymbol ''_iterator'') zippered
            iteratorExpr) (\<lambda>iterInit.
   bindE (case checkIndices env
                 (case indices of None \<Rightarrow> DefExpr (VarSymbol ''chpl__elidedIdx'') | Some i \<Rightarrow> i)
          of Some e \<Rightarrow> Inl e | None \<Rightarrow> Inr ()) (\<lambda>_.
   bindE (destructureIndices env
            (case indices of None \<Rightarrow> DefExpr (VarSymbol ''chpl__elidedIdx'') | Some i \<Rightarrow> i)
            (SymExpr (VarSymbol ''_indexOfInterest'')) coforall) (\<lambda>bindings.
     case transferShadowVars intents
            (loopBeforeIntents env loopBody attrs zippered isLoweredForall isForExpr' isForeach
               bindings) of
       (intents', loop) \<Rightarrow>
         Inr \<lparr> builtBlock = BlockStmt BLOCK_NORMAL
                  [DefExpr (VarSymbol ''_indexOfInterest''),
                   DefExpr (VarSymbol ''_iterator''),
                   iterInit,
                   DeferStmt (new_CallExpr ''_freeIterator'' [SymExpr (VarSymbol ''_iterator'')]),
                   BlockStmt BLOCK_TYPE [new_PrimCall PRIM_MOVE
                     [SymExpr (VarSymbol ''_indexOfInterest''),
                      new_CallExpr ''iteratorIndex'' [SymExpr (VarSymbol ''_iterator'')]]],
                   ForLoopStmt (insertAtTail (DefExpr (LabelSymbol ''_continueLabel'')) loop),
                   DefExpr (LabelSymbol ''_breakLabel'')],
                intentsLeft = intents',
                flagsAdded = [(VarSymbol ''_iterator'', FLAG_EXPR_TEMP),
                              (VarSymbol ''_indexOfInterest'', FLAG_INDEX_OF_INTEREST)]
                   @ (if coforall then [(VarSymbol ''_indexOfInterest'', FLAG_COFORALL_INDEX_VAR)]
                      else []) \<rparr>)))"
  unfolding doBuildForLoop_def Let_def newTemp_def loopBeforeIntents_def
  by (simp add: new_ForLoop_def new_LoopStmt_def setAdditionalLLVMMetadata_def
      orderIndependentSet_def set_body_def set_mContinueLabel_def set_mBreakLabel_def
      set_mLLVMMetadataList_def set_mOrderIndependent_def cong: if_cong)

lemma doBuildForLoop_Inr:
  assumes "doBuildForLoop env indices iteratorExpr intents loopBody attrs
             coforall zippered isLoweredForall isForExpr' isForeach = Inr r"
  shows "\<exists>iterInit bindings intents' loop.
           buildIterInit (fNoOptimizeRangeIteration env) (VarSymbol ''_iterator'') zippered
             iteratorExpr = Inr iterInit
         \<and> transferShadowVars intents
             (loopBeforeIntents env loopBody attrs zippered isLoweredForall isForExpr' isForeach
                bindings) = (intents', loop)
         \<and> builtBlock r = BlockStmt BLOCK_NORMAL
              [DefExpr (VarSymbol ''_indexOfInterest''),
               DefExpr (VarSymbol ''_iterator''),
               iterInit,
               DeferStmt (new_CallExpr ''_freeIterator'' [SymExpr (VarSymbol ''_iterator'')]),
               BlockStmt BLOCK_TYPE [new_PrimCall PRIM_MOVE
                 [SymExpr (VarSymbol ''_indexOfInterest''),
                  new_CallExpr ''iteratorIndex'' [SymExpr (VarSymbol ''_iterator'')]]],
               ForLoopStmt (insertAtTail (DefExpr (LabelSymbol ''_continueLabel'')) loop),
               DefExpr (LabelSymbol ''_breakLabel'')]
         \<and> intentsLeft r = intents'"
  using assms unfolding doBuildForLoop_eq
  by (elim bindE_InrE) (auto split: prod.splits intro!: exI)

lemma doBuildForLoop_returns:
  assumes "buildIterInit (fNoOptimizeRangeIteration env) (VarSymbol ''_iterator'') zippered
             iteratorExpr = Inr iterInit"
    and "checkIndices env
           (case indices of None \<Rightarrow> DefExpr (VarSymbol ''chpl__elidedIdx'') | Some i \<Rightarrow> i)
         = None"
    and "destructureIndices env
           (case indices of None \<Rightarrow> DefExpr (VarSymbol ''chpl__elidedIdx'') | Some i \<Rightarrow> i)
           (SymExpr (VarSymbol ''_indexOfInterest'')) coforall = Inr bindings"
  shows "\<exists>r. doBuildForLoop env indices iteratorExpr intents loopBody attrs
               coforall zippered isLoweredForall isForExpr' isForeach = Inr r"
  using assms by (simp add: doBuildForLoop_eq split: prod.splits)

lemma buildIterInit_unzippered_returns:
  "\<exists>iterInit. buildIterInit True iterator False iteratorExpr = Inr iterInit"
  by (simp add: buildIterInit_def tryToReplaceWithDirectRangeIterator_def)

lemma buildIterInit_move:
  assumes "buildIterInit noopt iterator zippered e = Inr iterInit"
  shows "\<exists>src. iterInit = new_PrimCall PRIM_MOVE [SymExpr iterator, src]"
  using assms by (auto simp: buildIterInit_def bindE_Inr_iff split: if_splits)

text \<open>
  C1, as amended. Whenever one of the construction entry points (\<open>doBuildForLoop\<close> and
  the four presets over it) returns, the block consists of exactly: the index declaration,
  the sequence-handle declaration, the acquisition statement (a move into the handle), the
  deferred release of the handle, the block that materializes the current element, the
  loop node, and the break-label definition, in this order. The index declaration
  precedes the handle declaration.
\<close>

theorem built_block_layout:
  assumes "doBuildForLoop env indices iteratorExpr intents loopBody attrs
             coforall zippered isLoweredForall isForExpr' isForeach = Inr r
         \<or> buildForLoop env1 indices1 iteratorExpr1 loopBody1 zippered1 isForExpr1 attrs1 = Inr r
         \<or> buildForeachLoop env2 indices2 iteratorExpr2 intents2 loopBody2 zippered2 isForExpr2
              attrs2 = Inr r
         \<or> buildCoforallLoop env3 indices3 iteratorExpr3 loopBody3 zippered3 attrs3 = Inr r
         \<or> buildLoweredForallLoop env4 indices4 iteratorExpr4 loopBody4 zippered4 isForExpr4
              attrs4 = Inr r"
  shows "\<exists>src loop.
           builtBlock r = BlockStmt BLOCK_NORMAL
             [DefExpr (VarSymbol ''_indexOfInterest''),
              DefExpr (VarSymbol ''_iterator''),
              new_PrimCall PRIM_MOVE [SymExpr (VarSymbol ''_iterator''), src],
              DeferStmt (new_CallExpr ''_freeIterator'' [SymExpr (VarSymbol ''_iterator'')]),
              BlockStmt BLOCK_TYPE [new_PrimCall PRIM_MOVE
                [SymExpr (VarSymbol ''_indexOfInterest''),
                 new_CallExpr ''iteratorIndex'' [SymExpr (VarSymbol ''_iterator'')]]],
              ForLoopStmt loop,
              DefExpr (LabelSymbol ''_breakLabel'')]
         \<and> mIndex loop = Some (SymExpr (VarSymbol ''_indexOfInterest''))
         \<and> mIterator loop = Some (SymExpr (VarSymbol ''_iterator''))
         \<and> mBreakLabel loop = Some (LabelSymbol ''_breakLabel'')"
proof -
  from assms obtain env' indices' e' intents' loopBody' attrs' co z lf fe fo where
    "doBuildForLoop env' indices' e' intents' loopBody' attrs' co z lf fe fo = Inr r"
    unfolding buildForLoop_def buildForeachLoop_def buildCoforallLoop_def
      buildLoweredForallLoop_def by blast
  from doBuildForLoop_Inr [OF this] obtain iterInit bindings intents'' loop where
    i: "buildIterInit (fNoOptimizeRangeIteration env') (VarSymbol ''_iterator'') z e'
          = Inr iterInit"
    and t: "transferShadowVars intents'
              (loopBeforeIntents env' loopBody' attrs' z lf fe fo bindings) = (intents'', loop)"
    and b: "builtBlock r = BlockStmt BLOCK_NORMAL
              [DefExpr (VarSymbol ''_indexOfInterest''),
               DefExpr (VarSymbol ''_iterator''),
               iterInit,
               DeferStmt (new_CallExpr ''_freeIterator'' [SymExpr (VarSymbol ''_iterator'')]),
               BlockStmt BLOCK_TYPE [new_PrimCall PRIM_MOVE
                 [SymExpr (VarSymbol ''_indexOfInterest''),
                  new_CallExpr ''iteratorIndex'' [SymExpr (VarSymbol ''_iterator'')]]],
               ForLoopStmt (insertAtTail (DefExpr (LabelSymbol ''_continueLabel'')) loop),
               DefExpr (LabelSymbol ''_breakLabel'')]"
    by blast
  from buildIterInit_move [OF i] obtain src where
    s: "iterInit = new_PrimCall PRIM_MOVE [SymExpr (VarSymbol ''_iterator''), src]" ..
  have "mIndex loop = Some (SymExpr (VarSymbol ''_indexOfInterest''))
      \<and> mIterator loop = Some (SymExpr (VarSymbol ''_iterator''))
      \<and> mBreakLabel loop = Some (LabelSymbol ''_breakLabel'')"
    using t
    by (induction intents' "loopBeforeIntents env' loopBody' attrs' z lf fe fo bindings"
        rule: transferShadowVars.induct)
      (auto simp: loopBeforeIntents_def set_fShadowVars_def split: prod.splits)
  then show ?thesis
    using b s
    by (intro exI [of _ src]
        exI [of _ "insertAtTail (DefExpr (LabelSymbol ''_continueLabel'')) loop"])
      (simp add: insertAtTail_def set_body_def)
qed

lemma exampleEnv_plain_loop:
  "buildForLoop exampleEnv None (SymExpr (VarSymbol ''A'')) None False False []
   = Inr \<lparr> builtBlock = BlockStmt BLOCK_NORMAL
             [DefExpr (VarSymbol ''_indexOfInterest''),
              DefExpr (VarSymbol ''_iterator''),
              new_PrimCall PRIM_MOVE [SymExpr (VarSymbol ''_iterator''),
                new_CallExpr ''_getIterator'' [SymExpr (VarSymbol ''A'')]],
              DeferStmt (new_CallExpr ''_freeIterator'' [SymExpr (VarSymbol ''_iterator'')]),
              BlockStmt BLOCK_TYPE [new_PrimCall PRIM_MOVE
                [SymExpr (VarSymbol ''_indexOfInterest''),
                 new_CallExpr ''iteratorIndex'' [SymExpr (VarSymbol ''_iterator'')]]],
              ForLoopStmt (ForLoop 7 (''loop.chpl'', 1) BLOCK_NORMAL
                (Some (LabelSymbol ''_breakLabel'')) (Some (LabelSymbol ''_continueLabel''))
                False [] None
                (Some (SymExpr (VarSymbol ''_indexOfInterest'')))
                (Some (SymExpr (VarSymbol ''_iterator'')))
                False False False [] None None None
                [DefExpr (LabelSymbol ''_continueLabel'')]),
              DefExpr (LabelSymbol ''_breakLabel'')],
           intentsLeft = None,
           flagsAdded = [(VarSymbol ''_iterator'', FLAG_EXPR_TEMP),
                         (VarSymbol ''_indexOfInterest'', FLAG_INDEX_OF_INTEREST)] \<rparr>"
  by (simp add: buildForLoop_def doBuildForLoop_eq exampleEnv_def buildIterInit_def
      tryToReplaceWithDirectRangeIterator_def loopBeforeIntents_def insertAtTail_def
      set_body_def)

theorem built_block_layout_witness:
  "\<exists>src loop.
     builtBlock (projr (buildForLoop exampleEnv None (SymExpr (VarSymbol ''A'')) None
                          False False []))
       = BlockStmt BLOCK_NORMAL
           [DefExpr (VarSymbol ''_indexOfInterest''),
            DefExpr (VarSymbol ''_iterator''),
            new_PrimCall PRIM_MOVE [SymExpr (VarSymbol ''_iterator''), src],
            DeferStmt (new_CallExpr ''_freeIterator'' [SymExpr (VarSymbol ''_iterator'')]),
            BlockStmt BLOCK_TYPE [new_PrimCall PRIM_MOVE
              [SymExpr (VarSymbol ''_indexOfInterest''),
               new_CallExpr ''iteratorIndex'' [SymExpr (VarSymbol ''_iterator'')]]],
            ForLoopStmt loop,
            DefExpr (LabelSymbol ''_breakLabel'')]
     \<and> mIndex loop = Some (SymExpr (VarSymbol ''_indexOfInterest''))
     \<and> mIterator loop = Some (SymExpr (VarSymbol ''_iterator''))
     \<and> mBreakLabel loop = Some (LabelSymbol ''_breakLabel'')"
proof -
  have "buildForLoop exampleEnv None (SymExpr (VarSymbol ''A'')) None False False []
        = Inr (projr (buildForLoop exampleEnv None (SymExpr (VarSymbol ''A'')) None
                        False False []))"
    by (simp add: exampleEnv_plain_loop)
  then show ?thesis
    by (rule built_block_layout [OF disjI2 [OF disjI1]])
qed

text \<open>
  C1 as stated fails: for \<open>for ... in A\<close> the block starts with the declaration of the
  index \<open>_indexOfInterest\<close>, and the declaration of the handle \<open>_iterator\<close> comes after
  it, not before.
\<close>

theorem handle_declared_after_index_counterexample:
  "blockItems (builtBlock (projr (buildForLoop exampleEnv None (SymExpr (VarSymbol ''A'')) None
                                    False False []))) ! 0
     = DefExpr (VarSymbol ''_indexOfInterest'')
   \<and> blockItems (builtBlock (projr (buildForLoop exampleEnv None (SymExpr (VarSymbol ''A'')) None
                                    False False []))) ! 1
     = DefExpr (VarSymbol ''_iterator'')
   \<and> DefExpr (VarSymbol ''_iterator'')
     \<notin> set (take 1 (blockItems (builtBlock (projr (buildForLoop exampleEnv None
                        (SymExpr (VarSymbol ''A'')) None False False [])))))"
  by (simp add: exampleEnv_plain_loop)

text \<open>
  C9. When an intents call is handed to \<open>doBuildForLoop\<close> and it returns, the intents
  call of the caller has no actuals left, and the shadow-variable list of the loop node
  (the sixth statement of the block) holds the declarations that were its actuals, in
  their order.
\<close>

theorem intents_moved_in_order:
  assumes "doBuildForLoop env indices iteratorExpr (Some (CallExpr b p decls)) loopBody attrs
             coforall zippered isLoweredForall isForExpr' isForeach = Inr r"
  shows "intentsLeft r = Some (CallExpr b p [])
       \<and> (\<exists>loop. blockItems (builtBlock r) ! 5 = ForLoopStmt loop \<and> fShadowVars loop = decls)"
proof -
  from doBuildForLoop_Inr [OF assms] obtain iterInit bindings intents' loop where
    t: "transferShadowVars (Some (CallExpr b p decls))
          (loopBeforeIntents env loopBody attrs zippered isLoweredForall isForExpr' isForeach
             bindings) = (intents', loop)"
    and bl: "builtBlock r = BlockStmt BLOCK_NORMAL
              [DefExpr (VarSymbol ''_indexOfInterest''),
               DefExpr (VarSymbol ''_iterator''),
               iterInit,
               DeferStmt (new_CallExpr ''_freeIterator'' [SymExpr (VarSymbol ''_iterator'')]),
               BlockStmt BLOCK_TYPE [new_PrimCall PRIM_MOVE
                 [SymExpr (VarSymbol ''_indexOfInterest''),
                  new_CallExpr ''iteratorIndex'' [SymExpr (VarSymbol ''_iterator'')]]],
               ForLoopStmt (insertAtTail (DefExpr (LabelSymbol ''_continueLabel'')) loop),
               DefExpr (LabelSymbol ''_breakLabel'')]"
    and il: "intentsLeft r = intents'"
    by blast
  from t have i: "intents' = Some (CallExpr b p [])" and "fShadowVars loop = decls"
    by (simp_all add: transferShadowVars_call loopBeforeIntents_def set_fShadowVars_def
        del: transferShadowVars.simps, auto)
  then have "fShadowVars (insertAtTail (DefExpr (LabelSymbol ''_continueLabel'')) loop) = decls"
    by (simp add: insertAtTail_def set_body_def)
  with bl il i show ?thesis by simp
qed

theorem intents_moved_in_order_witness:
  "intentsLeft (projr (doBuildForLoop exampleEnv None (SymExpr (VarSymbol ''A''))
       (Some (new_PrimCall (PRIM_OTHER ''PRIM_ACTUALS_LIST'')
          [DefExpr (VarSymbol ''x''), DefExpr (VarSymbol ''y'')]))
       None [] False False False False True))
     = Some (new_PrimCall (PRIM_OTHER ''PRIM_ACTUALS_LIST'') [])
   \<and> (\<exists>loop. blockItems (builtBlock (projr (doBuildForLoop exampleEnv None
          (SymExpr (VarSymbol ''A''))
          (Some (new_PrimCall (PRIM_OTHER ''PRIM_ACTUALS_LIST'')
             [DefExpr (VarSymbol ''x''), DefExpr (VarSymbol ''y'')]))
          None [] False False False False True))) ! 5 = ForLoopStmt loop
        \<and> fShadowVars loop = [DefExpr (VarSymbol ''x''), DefExpr (VarSymbol ''y'')])"
proof -
  have "\<not> isl (doBuildForLoop exampleEnv None (SymExpr (VarSymbol ''A''))
       (Some (new_PrimCall (PRIM_OTHER ''PRIM_ACTUALS_LIST'')
          [DefExpr (VarSymbol ''x''), DefExpr (VarSymbol ''y'')]))
       None [] False False False False True)"
    by (simp add: doBuildForLoop_eq exampleEnv_def buildIterInit_def new_PrimCall_def
        tryToReplaceWithDirectRangeIterator_def transferIntents_eq)
  then have "doBuildForLoop exampleEnv None (SymExpr (VarSymbol ''A''))
       (Some (CallExpr None (Some (PRIM_OTHER ''PRIM_ACTUALS_LIST''))
          [DefExpr (VarSymbol ''x''), DefExpr (VarSymbol ''y'')]))
       None [] False False False False True
     = Inr (projr (doBuildForLoop exampleEnv None (SymExpr (VarSymbol ''A''))
       (Some (CallExpr None (Some (PRIM_OTHER ''PRIM_ACTUALS_LIST''))
          [DefExpr (VarSymbol ''x''), DefExpr (VarSymbol ''y'')]))
       None [] False False False False True))"
    by (simp add: new_PrimCall_def)
  from intents_moved_in_order [OF this] show ?thesis
    by (simp add: new_PrimCall_def)
qed

subsection \<open>Zippered sources\<close>

lemma isPrimitive_toCallExpr:
  "(case toCallExpr e of None \<Rightarrow> False | Some c \<Rightarrow> isPrimitive c tag) = isPrimitive e tag"
  by (cases e) simp_all






lemma oldStyleZipSource_eq:
  "oldStyleZipSource noopt e =
     (if isNamed e ''_build_tuple'' then
        bindE (mapE (tryToReplaceWithDirectRangeIterator noopt) (argList e)) (\<lambda>actuals.
          Inr (CallExpr (baseExpr e) (primitive e) actuals))
      else Inr e)"
  by (cases e) (simp_all add: oldStyleZipSource_def)


lemma buildIterInit_old_style:
  assumes "\<not> isPrimitive e PRIM_ZIP"
  shows "buildIterInit noopt iterator True e
           = bindE (oldStyleZipSource noopt e) (\<lambda>src.
               Inr (new_PrimCall PRIM_MOVE
                      [SymExpr iterator, new_CallExpr ''_getIteratorZip'' [src]]))"
  using assms by (simp add: buildIterInit_def isPrimitive_toCallExpr)

lemma acquisition_statement:
  assumes "doBuildForLoop env indices iteratorExpr intents loopBody attrs
             coforall zippered isLoweredForall isForExpr' isForeach = Inr r"
  shows "buildIterInit (fNoOptimizeRangeIteration env) (VarSymbol ''_iterator'') zippered
           iteratorExpr = Inr (blockItems (builtBlock r) ! 2)"
  using doBuildForLoop_Inr [OF assms] by auto





text \<open>
  C8. For a zippered source that is not a \<open>PRIM_ZIP\<close> call, when \<open>doBuildForLoop\<close>
  returns the acquisition statement moves \<open>_getIteratorZip(src)\<close> into the handle, one
  call around the whole source. If the source is a call named \<open>_build_tuple\<close>, \<open>src\<close> is
  that call with the same callee and as many actuals, each the result of the range
  optimizer on the actual at its position; otherwise \<open>src\<close> is the source as given.
\<close>

theorem old_style_zip_wrapped:
  assumes "doBuildForLoop env indices iteratorExpr intents loopBody attrs
             coforall True isLoweredForall isForExpr' isForeach = Inr r"
    and "\<not> isPrimitive iteratorExpr PRIM_ZIP"
  shows "\<exists>src.
           blockItems (builtBlock r) ! 2
             = new_PrimCall PRIM_MOVE
                 [SymExpr (VarSymbol ''_iterator''), new_CallExpr ''_getIteratorZip'' [src]]
         \<and> (isNamed iteratorExpr ''_build_tuple'' \<longrightarrow>
               (\<exists>actuals. list_all2
                             (\<lambda>a a'. tryToReplaceWithDirectRangeIterator
                                       (fNoOptimizeRangeIteration env) a = Inr a')
                             (argList iteratorExpr) actuals
                    \<and> src = CallExpr (baseExpr iteratorExpr) (primitive iteratorExpr) actuals))
         \<and> (\<not> isNamed iteratorExpr ''_build_tuple'' \<longrightarrow> src = iteratorExpr)"
proof -
  let ?noopt = "fNoOptimizeRangeIteration env"
  have "bindE (oldStyleZipSource ?noopt iteratorExpr) (\<lambda>src.
          Inr (new_PrimCall PRIM_MOVE
                 [SymExpr (VarSymbol ''_iterator''), new_CallExpr ''_getIteratorZip'' [src]]))
        = Inr (blockItems (builtBlock r) ! 2)"
    using acquisition_statement [OF assms(1)] assms(2) by (simp add: buildIterInit_old_style)
  then obtain src where os: "oldStyleZipSource ?noopt iteratorExpr = Inr src"
    and st: "blockItems (builtBlock r) ! 2
               = new_PrimCall PRIM_MOVE
                   [SymExpr (VarSymbol ''_iterator''), new_CallExpr ''_getIteratorZip'' [src]]"
    by (auto elim: bindE_InrE)
  from os have "isNamed iteratorExpr ''_build_tuple'' \<longrightarrow>
      (\<exists>actuals. list_all2 (\<lambda>a a'. tryToReplaceWithDirectRangeIterator ?noopt a = Inr a')
                   (argList iteratorExpr) actuals
         \<and> src = CallExpr (baseExpr iteratorExpr) (primitive iteratorExpr) actuals)"
    by (auto simp: oldStyleZipSource_eq bindE_Inr_iff mapE_Inr_iff)
  moreover from os have "\<not> isNamed iteratorExpr ''_build_tuple'' \<longrightarrow> src = iteratorExpr"
    by (auto simp: oldStyleZipSource_eq)
  ultimately show ?thesis using st by blast
qed

text \<open>The old-style source \<open>(A, 1..10)\<close>: the tuple call stays, its range is replaced.\<close>

theorem old_style_zip_wrapped_witness:
  "blockItems (builtBlock (projr (doBuildForLoop exampleEnv None
       (new_CallExpr ''_build_tuple'' [SymExpr (VarSymbol ''A''), range_1_10])
       None None [] False True False False False))) ! 2
     = new_PrimCall PRIM_MOVE [SymExpr (VarSymbol ''_iterator''),
         new_CallExpr ''_getIteratorZip''
           [new_CallExpr ''_build_tuple''
              [SymExpr (VarSymbol ''A''),
               new_CallExpr ''chpl_direct_range_iter'' [lit ''1'', lit ''10'']]]]"
proof -
  let ?e = "new_CallExpr ''_build_tuple'' [SymExpr (VarSymbol ''A''), range_1_10]"
  have a: "tryToReplaceWithDirectRangeIterator False (SymExpr (VarSymbol ''A''))
             = Inr (SymExpr (VarSymbol ''A''))"
    by (simp add: tryToReplaceWithDirectRangeIterator_def)
  have b: "tryToReplaceWithDirectRangeIterator False range_1_10
             = Inr (new_CallExpr ''chpl_direct_range_iter'' [lit ''1'', lit ''10''])"
    by (rule bounded_range_replaced [where rest = "[]"]) (simp_all add: range_1_10_def)
  have np: "\<not> isPrimitive ?e PRIM_ZIP" by simp
  have "oldStyleZipSource False ?e
          = Inr (new_CallExpr ''_build_tuple''
                   [SymExpr (VarSymbol ''A''),
                    new_CallExpr ''chpl_direct_range_iter'' [lit ''1'', lit ''10'']])"
    by (simp add: oldStyleZipSource_eq a b) (simp add: new_CallExpr_def)
  then have "doBuildForLoop exampleEnv None ?e None None [] False True False False False
        = Inr (projr (doBuildForLoop exampleEnv None ?e None None []
                        False True False False False))"
    by (simp add: doBuildForLoop_eq exampleEnv_def buildIterInit_old_style)
  from old_style_zip_wrapped [OF this np] show ?thesis
    by (auto simp: exampleEnv_def list_all2_Cons1 a b) (simp add: new_CallExpr_def)
qed

subsection \<open>The loop node\<close>

lemma length_copyList: "copyList cp m es = (es', m') \<Longrightarrow> length es' = length es"
  by (induction es arbitrary: m es' m') (auto split: prod.splits)

lemma copyList_map: "snd (copyList cp m es) = foldl (\<lambda>m e. snd (cp m e)) m es"
  by (induction es arbitrary: m) (simp_all add: case_prod_beta)

lemma copyList_nth:
  "i < length es \<Longrightarrow>
   fst (copyList cp m es) ! i = fst (cp (foldl (\<lambda>m e. snd (cp m e)) m (take i es)) (es ! i))"
proof (induction es arbitrary: m i)
  case Nil
  then show ?case by simp
next
  case (Cons e es)
  show ?case
  proof (cases i)
    case 0
    then show ?thesis by (simp add: case_prod_beta)
  next
    case (Suc j)
    with Cons.prems have "j < length es" by simp
    from Cons.IH [OF this, of "snd (cp m e)"] Suc show ?thesis
      by (simp add: case_prod_beta)
  qed
qed

text \<open>
  C10. Cloning a node whose index and iterator references are set returns a clone with
  the location, block tag, break and continue labels, order-independence flag, LLVM
  metadata, zippered flag, for-expression flag and user label of the original. Its index
  reference is the copy of the original's, its iterator reference the copy of the
  original's made with the rename map as the first copy left it, and its body has the
  length of the original's and holds at every position the copy of the original's
  statement at that position, made with the rename map as the copies before it left it.
  The clone is never marked as a lowered forall, whatever the original's mark.
\<close>

theorem copyInner_clone:
  assumes "mIndex this = Some idx" and "mIterator this = Some it"
  shows "\<exists>clone m'.
           copyInner cp nid loc this m = Inr (clone, m')
         \<and> astloc clone = astloc this
         \<and> blockTag clone = blockTag this
         \<and> mBreakLabel clone = mBreakLabel this
         \<and> mContinueLabel clone = mContinueLabel this
         \<and> mOrderIndependent clone = mOrderIndependent this
         \<and> mLLVMMetadataList clone = mLLVMMetadataList this
         \<and> mZippered clone = mZippered this
         \<and> mIsForExpr clone = mIsForExpr this
         \<and> userLabel clone = userLabel this
         \<and> mIndex clone = Some (fst (cp m idx))
         \<and> mIterator clone = Some (fst (cp (snd (cp m idx)) it))
         \<and> body clone = fst (copyList cp (snd (cp (snd (cp m idx)) it)) (body this))
         \<and> length (body clone) = length (body this)
         \<and> (\<forall>i < length (body this).
               body clone ! i
                 = fst (cp (foldl (\<lambda>m e. snd (cp m e)) (snd (cp (snd (cp m idx)) it))
                              (take i (body this)))
                          (body this ! i)))
         \<and> m' = foldl (\<lambda>m e. snd (cp m e)) (snd (cp (snd (cp m idx)) it)) (body this)
         \<and> \<not> isLoweredForallLoop clone"
proof -
  let ?m2 = "snd (cp (snd (cp m idx)) it)"
  have "\<exists>clone m'.
           copyInner cp nid loc this m = Inr (clone, m')
         \<and> astloc clone = astloc this
         \<and> blockTag clone = blockTag this
         \<and> mBreakLabel clone = mBreakLabel this
         \<and> mContinueLabel clone = mContinueLabel this
         \<and> mOrderIndependent clone = mOrderIndependent this
         \<and> mLLVMMetadataList clone = mLLVMMetadataList this
         \<and> mZippered clone = mZippered this
         \<and> mIsForExpr clone = mIsForExpr this
         \<and> userLabel clone = userLabel this
         \<and> mIndex clone = Some (fst (cp m idx))
         \<and> mIterator clone = Some (fst (cp (snd (cp m idx)) it))
         \<and> body clone = fst (copyList cp ?m2 (body this))
         \<and> length (body clone) = length (body this)
         \<and> m' = snd (copyList cp ?m2 (body this))
         \<and> \<not> isLoweredForallLoop clone"
    using assms
    by (auto simp: copyInner_def Let_def new_ForLoop0_def new_LoopStmt_def
        isLoweredForallLoop_def
        set_astloc_def set_blockTag_def set_mBreakLabel_def set_mContinueLabel_def
        set_mOrderIndependent_def set_mLLVMMetadataList_def set_mIndex_def set_mIterator_def
        set_mZippered_def set_mLoweredForall_def set_mIsForExpr_def set_userLabel_def
        set_body_def split: prod.splits dest: length_copyList)
  then show ?thesis
    by (auto simp: copyList_map copyList_nth)
qed

text \<open>
  A loop node marked as a lowered forall whose body declares \<open>x\<close> and refers to it,
  cloned with a copy function that renames: the clone is not marked, its index reference
  is renamed as the map says, and its body declares \<open>x_copy\<close> and refers to \<open>x_copy\<close>.
\<close>

theorem copyInner_clone_witness:
  "isLoweredForallLoop loopWithBody
   \<and> (\<exists>clone m'.
         copyInner renamingCopy 9 (''loop.chpl'', 1) loopWithBody
           [(VarSymbol ''_indexOfInterest'', VarSymbol ''i2'')] = Inr (clone, m')
       \<and> \<not> isLoweredForallLoop clone
       \<and> mIndex clone = Some (SymExpr (VarSymbol ''i2''))
       \<and> mIterator clone = Some (SymExpr (VarSymbol ''_iterator''))
       \<and> body clone = [DefExpr (VarSymbol ''x_copy''), SymExpr (VarSymbol ''x_copy'')]
       \<and> m' = [(VarSymbol ''x'', VarSymbol ''x_copy''),
                (VarSymbol ''_indexOfInterest'', VarSymbol ''i2'')])"
proof -
  have l: "mIndex loopWithBody = Some (SymExpr (VarSymbol ''_indexOfInterest''))"
    "mIterator loopWithBody = Some (SymExpr (VarSymbol ''_iterator''))"
    "body loopWithBody = [DefExpr (VarSymbol ''x''), SymExpr (VarSymbol ''x'')]"
    "isLoweredForallLoop loopWithBody"
    by (simp_all add: loopWithBody_def exampleLoop_def new_ForLoop_def new_LoopStmt_def
        set_body_def isLoweredForallLoop_def)
  from copyInner_clone [OF l(1,2), of renamingCopy 9 "(''loop.chpl'', 1)"
      "[(VarSymbol ''_indexOfInterest'', VarSymbol ''i2'')]"]
  obtain clone m' where
    c: "copyInner renamingCopy 9 (''loop.chpl'', 1) loopWithBody
          [(VarSymbol ''_indexOfInterest'', VarSymbol ''i2'')] = Inr (clone, m')"
    and f: "\<not> isLoweredForallLoop clone"
      "mIndex clone = Some (SymExpr (VarSymbol ''i2''))"
      "mIterator clone = Some (SymExpr (VarSymbol ''_iterator''))"
    and len: "length (body clone) = 2"
    and nth: "\<forall>i < 2. body clone ! i
                = fst (renamingCopy
                         (foldl (\<lambda>m e. snd (renamingCopy m e))
                            [(VarSymbol ''_indexOfInterest'', VarSymbol ''i2'')]
                            (take i [DefExpr (VarSymbol ''x''), SymExpr (VarSymbol ''x'')]))
                         ([DefExpr (VarSymbol ''x''), SymExpr (VarSymbol ''x'')] ! i))"
    and m: "m' = [(VarSymbol ''x'', VarSymbol ''x_copy''),
                  (VarSymbol ''_indexOfInterest'', VarSymbol ''i2'')]"
    by (auto simp: l)
  from nth [rule_format, of 0] nth [rule_format, of 1]
  have "body clone ! 0 = DefExpr (VarSymbol ''x_copy'')"
    "body clone ! 1 = SymExpr (VarSymbol ''x_copy'')"
    by simp_all
  with len have "body clone = [DefExpr (VarSymbol ''x_copy''), SymExpr (VarSymbol ''x_copy'')]"
    by (cases "body clone"; cases "tl (body clone)") auto
  with c f m l(4) show ?thesis by blast
qed

text \<open>
  C4, as amended. The validator first runs the inherited \<open>BlockStmt::verify\<close> and fails
  when that fails. It fails exactly when the inherited check fails, the index reference
  is null, the iterator reference is null, the legacy block-info slot is non-empty, the
  use-list is non-empty, or the by-ref-var list is non-empty; a failure that is not the
  inherited check's own is an internal error that names the node; a node that passes the
  inherited check and has none of the five defects passes.
\<close>

theorem verify_fails_iff:
  "((\<exists>err. verify BlockStmt_verify this = Inl err) \<longleftrightarrow>
      ((\<exists>err. BlockStmt_verify this = Inl err)
       \<or> mIndex this = None \<or> mIterator this = None \<or> blockInfo this \<noteq> None
       \<or> useList this \<noteq> None \<or> byrefVars this \<noteq> None))
   \<and> (\<forall>err. verify BlockStmt_verify this = Inl err \<longrightarrow>
         BlockStmt_verify this = Inl err
         \<or> (\<exists>msg. err = INT_FATAL (Some (ast_id this)) msg))
   \<and> (BlockStmt_verify this = Inr ()
        \<and> mIndex this \<noteq> None \<and> mIterator this \<noteq> None \<and> blockInfo this = None
        \<and> useList this = None \<and> byrefVars this = None \<longrightarrow>
        verify BlockStmt_verify this = Inr ())"
  by (cases "BlockStmt_verify this") (auto simp: verify_def)

text \<open>
  With an inherited check that passes, a node without index is rejected and the node the
  factory builds is accepted.
\<close>

theorem verify_fails_iff_witness:
  "(\<exists>err. verify (\<lambda>l. Inr ()) loopWithoutIndex = Inl err)
   \<and> verify (\<lambda>l. Inr ()) exampleLoop = Inr ()"
proof -
  have "mIndex loopWithoutIndex = None"
    by (simp add: loopWithoutIndex_def new_ForLoop0_def new_LoopStmt_def set_mIndex_def
        set_mIterator_def set_mZippered_def set_mLoweredForall_def set_mIsForExpr_def)
  moreover have "mIndex exampleLoop \<noteq> None \<and> mIterator exampleLoop \<noteq> None
      \<and> blockInfo exampleLoop = None \<and> useList exampleLoop = None
      \<and> byrefVars exampleLoop = None"
    by (simp add: exampleLoop_def new_ForLoop_def new_LoopStmt_def)
  ultimately show ?thesis
    using verify_fails_iff [of "\<lambda>l. Inr ()" loopWithoutIndex]
      verify_fails_iff [of "\<lambda>l. Inr ()" exampleLoop]
    by auto
qed

text \<open>
  C4 as stated fails: the node the factory builds has none of the five defects, and
  the validator still fails on it when the inherited check, which it runs first, fails.
\<close>

theorem verify_inherited_failure_counterexample:
  "verify rejectingBlockStmtVerify exampleLoop = Inl (INT_FATAL (Some 7) ''BlockStmt::verify'')
   \<and> mIndex exampleLoop \<noteq> None \<and> mIterator exampleLoop \<noteq> None
   \<and> blockInfo exampleLoop = None \<and> useList exampleLoop = None
   \<and> byrefVars exampleLoop = None"
  by (simp add: verify_def rejectingBlockStmtVerify_def exampleLoop_def new_ForLoop_def
      new_LoopStmt_def)

text \<open>
  C5. Code emission on a loop node always ends in the internal error
  \<open>ForLoop::codegen This should be unreachable\<close> that names the node: it is never a
  user error and the call never returns a value.
\<close>

theorem codegen_is_internal_error:
  "codegen this
     = Inl (INT_FATAL (Some (ast_id this)) ''ForLoop::codegen This should be unreachable'')
   \<and> (\<forall>msg. codegen this \<noteq> Inl (USR_FATAL msg))
   \<and> (\<forall>ret. codegen this \<noteq> Inr ret)"
  by (simp add: codegen_def)

theorem codegen_is_internal_error_witness:
  "codegen exampleLoop
     = Inl (INT_FATAL (Some 7) ''ForLoop::codegen This should be unreachable'')"
  using codegen_is_internal_error [of exampleLoop]
  by (simp add: exampleLoop_def new_ForLoop_def new_LoopStmt_def)

text \<open>
  C6, as amended. The legacy accessors \<open>blockInfoGet\<close> and \<open>blockInfoSet\<close> of a loop
  node print one line, \<open>Migration: ForLoop <id> Unexpected call to ...\<close> with the id of
  the node, and return null; the compilation goes on, and \<open>blockInfoSet\<close> stores nothing
  in the node.
\<close>

theorem legacy_accessors_print_and_return_null:
  "blockInfoGet this
     = Inr ([Printf (''Migration: ForLoop   %12d Unexpected call to blockInfoGet()'' @ [CHR 0x0A])
               [ast_id this]], None)
   \<and> blockInfoSet this expr
     = Inr ([Printf (''Migration: ForLoop   %12d Unexpected call to blockInfoSet()'' @ [CHR 0x0A])
               [ast_id this]], None, this)"
  by (simp add: blockInfoGet_def blockInfoSet_def)

theorem legacy_accessors_print_and_return_null_witness:
  "fst (projr (blockInfoGet exampleLoop))
     = [Printf (''Migration: ForLoop   %12d Unexpected call to blockInfoGet()'' @ [CHR 0x0A]) [7]]
   \<and> snd (projr (blockInfoGet exampleLoop)) = None
   \<and> snd (snd (projr (blockInfoSet exampleLoop (Some range_1_10)))) = exampleLoop"
  using legacy_accessors_print_and_return_null [of exampleLoop "Some range_1_10"]
  by (simp add: exampleLoop_def new_ForLoop_def new_LoopStmt_def)

text \<open>
  C6 as stated fails: on the node the factory builds, both accessors return (null) and
  nothing aborts the compilation.
\<close>

theorem legacy_accessors_return_counterexample:
  "\<not> isl (blockInfoGet exampleLoop)
   \<and> \<not> isl (blockInfoSet exampleLoop (Some range_1_10))
   \<and> snd (projr (blockInfoGet exampleLoop)) = None
   \<and> fst (snd (projr (blockInfoSet exampleLoop (Some range_1_10)))) = None"
  by (simp add: blockInfoGet_def blockInfoSet_def)

end
